theory Spec2Isabelle
  imports Main
begin

section \<open>The imageboard backend: tripcodes, storage pipeline, reconciler, endpoints\<close>

text \<open>
  A shallow embedding of the tripcode functions \<^verbatim>\<open>generateTripcode\<close> and
  \<^verbatim>\<open>verifyTripcode\<close> (\<^verbatim>\<open>utils/fileUtils.js\<close>), of \<^verbatim>\<open>uploadFile\<close> and
  \<^verbatim>\<open>deleteFile\<close> (\<^verbatim>\<open>utils/fileStorage.js\<close>), of the reconciler
  \<^verbatim>\<open>cleanupOrphanedFiles\<close> (\<^verbatim>\<open>utils/cleanup.js\<close>), of \<^verbatim>\<open>validateThread\<close>
  (\<^verbatim>\<open>utils/validations.js\<close>) and of the handlers \<^verbatim>\<open>createThread\<close>,
  \<^verbatim>\<open>deleteThread\<close> and \<^verbatim>\<open>deletePost\<close> of the controller that uses the object
  store (\<^verbatim>\<open>controllers/thread.js\<close>).

  JavaScript strings are \<open>string\<close>; a value that may be \<^verbatim>\<open>null\<close> or
  \<^verbatim>\<open>undefined\<close> is an \<open>option\<close>. The libraries the code calls and the process
  environment are not part of the repository: they are the fields of the record
  \<open>deps\<close>, over which every general theorem is quantified. An asynchronous function
  takes the world (both buckets, both tables, the gateway calls made so far, the error
  log) and returns its result together with the new world.
\<close>

subsection \<open>The collaborators\<close>

type_synonym bytes = "nat list"

datatype bucket = IMAGES_BUCKET | THUMBNAILS_BUCKET

datatype table = Threads | Posts

record deps =
  TRIPCODE_SALT :: "string option"
    \<comment> \<open>\<^verbatim>\<open>process.env.TRIPCODE_SALT\<close>\<close>
  sha256_base64 :: "string \<Rightarrow> string"
    \<comment> \<open>\<^verbatim>\<open>crypto.createHash('sha256').update(s).digest('base64')\<close>\<close>
  extname :: "string \<Rightarrow> string"
    \<comment> \<open>\<^verbatim>\<open>path.extname\<close>\<close>
  readFileSync :: "string \<Rightarrow> bytes option"
    \<comment> \<open>\<^verbatim>\<open>fs.readFileSync\<close>; \<open>None\<close> when it throws\<close>
  sharp_resize :: "nat \<Rightarrow> bytes \<Rightarrow> bytes option"
    \<comment> \<open>\<^verbatim>\<open>sharp(buf).resize(w).toBuffer()\<close>; \<open>None\<close> when it rejects\<close>
  getPublicUrl :: "bucket \<Rightarrow> string \<Rightarrow> string"
    \<comment> \<open>\<^verbatim>\<open>supabase.storage.from(b).getPublicUrl(k).data.publicUrl\<close>\<close>
  URL_pathname :: "string \<Rightarrow> string option"
    \<comment> \<open>\<^verbatim>\<open>new URL(s).pathname\<close>; \<open>None\<close> when the constructor throws\<close>
  upload_fails :: "bucket \<Rightarrow> string \<Rightarrow> bool"
    \<comment> \<open>the gateway answers an upload of this key with an error\<close>
  remove_fails :: "bucket \<Rightarrow> string \<Rightarrow> bool"
  list_objects :: "bucket \<Rightarrow> string list \<Rightarrow> string list option"
    \<comment> \<open>the names \<^verbatim>\<open>list()\<close> answers with, given the keys stored; \<open>None\<close> for an error\<close>
  select_fails :: "table \<Rightarrow> bool"
  insert_fails :: "table \<Rightarrow> bool"
  delete_fails :: "table \<Rightarrow> bool"
  on_delete_cascade :: bool
    \<comment> \<open>whether the schema removes a thread's posts together with the thread\<close>

subsection \<open>JavaScript primitives\<close>

text \<open>Truthiness of a value that is a string, \<^verbatim>\<open>null\<close> or \<^verbatim>\<open>undefined\<close>.\<close>

fun truthy :: "string option \<Rightarrow> bool" where
  "truthy None = False"
| "truthy (Some s) = (s \<noteq> [])"

text \<open>\<^verbatim>\<open>s.replace(/c/g, r)\<close> for a single character \<open>c\<close>.\<close>

definition replace_all :: "char \<Rightarrow> char \<Rightarrow> string \<Rightarrow> string" where
  "replace_all c r s = map (\<lambda>x. if x = c then r else x) s"

text \<open>\<^verbatim>\<open>s.startsWith(p)\<close>.\<close>

definition startsWith :: "string \<Rightarrow> string \<Rightarrow> bool" where
  "startsWith s p = (take (length p) s = p)"

text \<open>\<^verbatim>\<open>s.split('/')\<close>: never empty; an empty string gives one empty part.\<close>

fun split_slash :: "string \<Rightarrow> string list" where
  "split_slash [] = [[]]"
| "split_slash (c # cs) =
     (if c = CHR ''/'' then [] # split_slash cs
      else (case split_slash cs of
              [] \<Rightarrow> [[c]]
            | p # ps \<Rightarrow> (c # p) # ps))"

subsection \<open>Tripcodes (\<^verbatim>\<open>utils/fileUtils.js\<close>)\<close>

definition generateTripcode :: "deps \<Rightarrow> string option \<Rightarrow> string option" where
  "generateTripcode d password =
     (case password of
        None \<Rightarrow> None
      | Some p \<Rightarrow>
          if p = [] then None
          else
            (let salt = (case TRIPCODE_SALT d of
                           None \<Rightarrow> ''defaultsalt''
                         | Some s \<Rightarrow> if s = [] then ''defaultsalt'' else s);
                 hash = replace_all (CHR ''='') (CHR ''-'')
                          (replace_all (CHR ''/'') (CHR '','')
                            (replace_all (CHR ''+'') (CHR ''.'')
                              (take 10 (sha256_base64 d (p @ salt)))))
             in Some hash))"

definition verifyTripcode :: "deps \<Rightarrow> string option \<Rightarrow> string option \<Rightarrow> bool" where
  "verifyTripcode d password tripcode = (generateTripcode d password = tripcode)"

subsection \<open>The object store and the relational store\<close>

text \<open>
  A row of \<^verbatim>\<open>threads\<close> or \<^verbatim>\<open>posts\<close> is a JSON object; a column that is
  \<^verbatim>\<open>null\<close> or missing is \<open>None\<close>. Both tables share the file columns, so one
  record serves both; \<open>thread_id\<close> and \<open>reply_to\<close> are set on posts only,
  \<open>subject\<close>, \<open>bumped_at\<close> and \<open>images_count\<close> on threads only.
\<close>

record row =
  row_id :: string
  thread_id :: "string option"
  subject :: "string option"
  comment :: string
  name :: string
  tripcode :: "string option"
  is_nsfw :: bool
  reply_to :: "string option"
  ip_address :: string
  created_at :: nat
  bumped_at :: "nat option"
  file_name :: "string option"
  file_path :: "string option"
  file_size :: "nat option"
  file_type :: "string option"
  thumbnail_path :: "string option"
  storage_path :: "string option"
  images_count :: "nat option"

text \<open>The calls made to the storage gateway, in order, and the state of both stores.\<close>

datatype call = Upload bucket string | Remove bucket string | ListAll bucket

record world =
  images :: "(string \<times> bytes) list"
  thumbnails :: "(string \<times> bytes) list"
  threads :: "row list"
  posts :: "row list"
  calls :: "call list"
  console :: "string list"

definition objects :: "bucket \<Rightarrow> world \<Rightarrow> (string \<times> bytes) list" where
  "objects b w = (case b of IMAGES_BUCKET \<Rightarrow> images w | THUMBNAILS_BUCKET \<Rightarrow> thumbnails w)"

definition set_objects :: "bucket \<Rightarrow> (string \<times> bytes) list \<Rightarrow> world \<Rightarrow> world" where
  "set_objects b xs w =
     (case b of IMAGES_BUCKET \<Rightarrow> w\<lparr>images := xs\<rparr> | THUMBNAILS_BUCKET \<Rightarrow> w\<lparr>thumbnails := xs\<rparr>)"

definition keys :: "bucket \<Rightarrow> world \<Rightarrow> string list" where
  "keys b w = map fst (objects b w)"

text \<open>\<^verbatim>\<open>console.error(msg, ...)\<close>: only the error channel is modelled.\<close>

definition console_error :: "string \<Rightarrow> world \<Rightarrow> world" where
  "console_error msg w = w\<lparr>console := console w @ [msg]\<rparr>"

text \<open>
  The gateway, as the code consumes it: every call answers \<^verbatim>\<open>{ data, error }\<close>.
  The first component of a result is \<open>True\<close> when \<^verbatim>\<open>error\<close> is set.
  \<^verbatim>\<open>upload\<close> is called with \<^verbatim>\<open>upsert: false\<close>, so it also fails on a key that
  is already stored; \<^verbatim>\<open>remove\<close> of a key that is not stored is no error.
\<close>

definition storage_upload :: "deps \<Rightarrow> bucket \<Rightarrow> string \<Rightarrow> bytes \<Rightarrow> world \<Rightarrow> bool \<times> world" where
  "storage_upload d b k v w =
     (let w1 = w\<lparr>calls := calls w @ [Upload b k]\<rparr> in
      if upload_fails d b k then (True, w1)
      else if k \<in> set (keys b w) then (True, w1)
      else (False, set_objects b (objects b w @ [(k, v)]) w1))"

definition storage_remove :: "deps \<Rightarrow> bucket \<Rightarrow> string \<Rightarrow> world \<Rightarrow> bool \<times> world" where
  "storage_remove d b k w =
     (let w1 = w\<lparr>calls := calls w @ [Remove b k]\<rparr> in
      if remove_fails d b k then (True, w1)
      else (False, set_objects b (filter (\<lambda>kv. fst kv \<noteq> k) (objects b w)) w1))"

definition storage_list :: "deps \<Rightarrow> bucket \<Rightarrow> world \<Rightarrow> string list option \<times> world" where
  "storage_list d b w = (list_objects d b (keys b w), w\<lparr>calls := calls w @ [ListAll b]\<rparr>)"

subsection \<open>Upload and delete (\<^verbatim>\<open>utils/fileStorage.js\<close>)\<close>

text \<open>The file object multer hands over; \<open>size_bytes\<close> is its \<^verbatim>\<open>size\<close>.\<close>

record multer_file =
  originalname :: "string option"
  mimetype :: string
  size_bytes :: nat
  buffer :: "bytes option"
  path :: "string option"

record file_data =
  fileName :: "string option"
  fileSize :: nat
  fileType :: string
  filePath :: string
  thumbnailPath :: "string option"
  storagePath :: string

text \<open>
  \<^verbatim>\<open>`${isNsfw ? 'nsfw/' : ''}${fileName}`\<close> with
  \<^verbatim>\<open>fileName = `${uuidv4()}${fileExt}`\<close>; \<open>uuid\<close> is what \<^verbatim>\<open>uuidv4()\<close>
  returned in this call. The locals \<^verbatim>\<open>fileName\<close>, \<^verbatim>\<open>storagePath\<close> and
  \<^verbatim>\<open>thumbnailPath\<close> are \<open>fname\<close>, \<open>spath\<close> and \<open>tpath\<close> here, the names
  themselves being the fields of the returned record.
\<close>

definition fileName_of :: "deps \<Rightarrow> string \<Rightarrow> multer_file \<Rightarrow> string" where
  "fileName_of d uuid f =
     uuid @ extname d (case originalname f of
                         None \<Rightarrow> ''unknown.jpg''
                       | Some n \<Rightarrow> if n = [] then ''unknown.jpg'' else n)"

definition prefixed :: "bool \<Rightarrow> string \<Rightarrow> string" where
  "prefixed isNsfw fname = (if isNsfw then ''nsfw/'' else []) @ fname"

text \<open>\<^verbatim>\<open>file.buffer || fs.readFileSync(file.path)\<close>; \<open>None\<close> when that throws.\<close>

definition fileBuffer_of :: "deps \<Rightarrow> multer_file \<Rightarrow> bytes option" where
  "fileBuffer_of d f =
     (case buffer f of
        Some b \<Rightarrow> Some b
      | None \<Rightarrow> (case path f of None \<Rightarrow> None | Some p \<Rightarrow> readFileSync d p))"

text \<open>
  The block \<^verbatim>\<open>if (isImage) { try { ... } catch (thumbErr) { ... } }\<close> of
  \<^verbatim>\<open>uploadFile\<close>: it yields \<^verbatim>\<open>thumbnailUrl\<close>.
\<close>

definition thumbnail_stage ::
  "deps \<Rightarrow> bool \<Rightarrow> string \<Rightarrow> multer_file \<Rightarrow> bytes \<Rightarrow> world \<Rightarrow> string option \<times> world" where
  "thumbnail_stage d isNsfw fname f fileBuffer w =
     (if startsWith (mimetype f) ''image/'' then
        (case sharp_resize d 200 fileBuffer of
           None \<Rightarrow> (None, console_error ''Error processing thumbnail:'' w)
         | Some thumbnailBuffer \<Rightarrow>
             (let tpath = prefixed isNsfw fname;
                  (thumbError, w1) = storage_upload d THUMBNAILS_BUCKET tpath thumbnailBuffer w
              in if thumbError then (None, console_error ''Error creating thumbnail:'' w1)
                 else (Some (getPublicUrl d THUMBNAILS_BUCKET tpath), w1)))
      else (None, w))"

definition uploadFile ::
  "deps \<Rightarrow> string \<Rightarrow> multer_file option \<Rightarrow> bool \<Rightarrow> world \<Rightarrow> file_data option \<times> world" where
  "uploadFile d uuid file isNsfw w =
     (case file of
        None \<Rightarrow> (None, console_error ''No file provided'' w)
      | Some f \<Rightarrow>
          (let fname = fileName_of d uuid f;
               spath = prefixed isNsfw fname
           in case fileBuffer_of d f of
                None \<Rightarrow> (None, console_error ''Error in uploadFile:'' w)
              | Some fileBuffer \<Rightarrow>
                  (let (uploadError, w1) = storage_upload d IMAGES_BUCKET spath fileBuffer w
                   in if uploadError then
                        (None, console_error ''Error in uploadFile:''
                                 (console_error ''Error uploading file:'' w1))
                      else
                        (let (thumbnailUrl, w2) = thumbnail_stage d isNsfw fname f fileBuffer w1
                         in (Some \<lparr>fileName = originalname f,
                                    fileSize = size_bytes f,
                                    fileType = mimetype f,
                                    filePath = getPublicUrl d IMAGES_BUCKET spath,
                                    thumbnailPath = thumbnailUrl,
                                    storagePath = spath\<rparr>, w2)))))"

text \<open>
  One \<^verbatim>\<open>remove\<close> followed by the \<^verbatim>\<open>if (error) console.error(...)\<close> of
  \<^verbatim>\<open>deleteFile\<close>.
\<close>

definition remove_logged :: "deps \<Rightarrow> bucket \<Rightarrow> string \<Rightarrow> string \<Rightarrow> world \<Rightarrow> world" where
  "remove_logged d b k msg w =
     (let (error, w1) = storage_remove d b k w
      in if error then console_error msg w1 else w1)"

text \<open>
  The local \<^verbatim>\<open>thumbnailStoragePath\<close> of \<^verbatim>\<open>deleteFile\<close>: the thumbnail path
  itself, or the last segment of its URL path when it starts with \<^verbatim>\<open>http\<close>;
  \<open>None\<close> when \<^verbatim>\<open>new URL\<close> throws.
\<close>

definition thumbnailStoragePath :: "deps \<Rightarrow> string \<Rightarrow> string option" where
  "thumbnailStoragePath d tp =
     (if startsWith tp ''http'' then
        (case URL_pathname d tp of
           None \<Rightarrow> None
         | Some pathname \<Rightarrow> Some (last (split_slash pathname)))
      else Some tp)"

text \<open>
  The body of the \<^verbatim>\<open>try\<close> block of \<^verbatim>\<open>deleteFile\<close>. The flag is \<open>True\<close> when
  an exception left the block; the world is the one reached at that point. The local
  \<^verbatim>\<open>path\<close> of the source is computed and never used: \<^verbatim>\<open>remove\<close> is given
  \<^verbatim>\<open>storagePath\<close> itself.
\<close>

definition deleteFile_try :: "deps \<Rightarrow> string option \<Rightarrow> string option \<Rightarrow> world \<Rightarrow> bool \<times> world" where
  "deleteFile_try d spath tpath w =
     (let w1 = (case spath of
                  None \<Rightarrow> w
                | Some sp \<Rightarrow>
                    if sp = [] then w
                    else remove_logged d IMAGES_BUCKET sp ''Error deleting file:'' w)
      in case tpath of
           None \<Rightarrow> (False, w1)
         | Some tp \<Rightarrow>
             if tp = [] then (False, w1)
             else (case thumbnailStoragePath d tp of
                     None \<Rightarrow> (True, w1)
                   | Some k \<Rightarrow>
                       (False, remove_logged d THUMBNAILS_BUCKET k ''Error deleting thumbnail:'' w1)))"

text \<open>\<^verbatim>\<open>deleteFile\<close>: the \<^verbatim>\<open>catch\<close> turns an exception into the result \<^verbatim>\<open>false\<close>.\<close>

definition deleteFile :: "deps \<Rightarrow> string option \<Rightarrow> string option \<Rightarrow> world \<Rightarrow> bool \<times> world" where
  "deleteFile d spath tpath w =
     (let (thrown, w1) = deleteFile_try d spath tpath w
      in if thrown then (False, console_error ''Error during file deletion:'' w1)
         else (True, w1))"

subsection \<open>The orphan reconciler (\<^verbatim>\<open>utils/cleanup.js\<close>)\<close>

definition rows :: "table \<Rightarrow> world \<Rightarrow> row list" where
  "rows t w = (case t of Threads \<Rightarrow> threads w | Posts \<Rightarrow> posts w)"

text \<open>
  \<^verbatim>\<open>supabase.from(t).select('storage_path').not('storage_path', 'is', null)\<close>:
  \<open>None\<close> when the query is answered with an error.
\<close>

definition select_storage_path :: "deps \<Rightarrow> table \<Rightarrow> world \<Rightarrow> string list option" where
  "select_storage_path d t w =
     (if select_fails d t then None else Some (List.map_filter storage_path (rows t w)))"

text \<open>
  The set \<^verbatim>\<open>validPaths\<close>: a path is added only \<^verbatim>\<open>if (record.storage_path)\<close>, so
  the empty string is never in it.
\<close>

definition validPaths :: "string list \<Rightarrow> string list \<Rightarrow> string set" where
  "validPaths threadPaths postPaths =
     set (filter (\<lambda>p. p \<noteq> []) threadPaths) \<union> set (filter (\<lambda>p. p \<noteq> []) postPaths)"

text \<open>
  One \<^verbatim>\<open>for (const file of files)\<close> loop over a listing: the count and the world are
  threaded through.
\<close>

fun remove_orphans ::
  "deps \<Rightarrow> bucket \<Rightarrow> string set \<Rightarrow> string list \<Rightarrow> nat \<times> world \<Rightarrow> nat \<times> world" where
  "remove_orphans d b valid [] (deletedCount, w) = (deletedCount, w)"
| "remove_orphans d b valid (file # files) (deletedCount, w) =
     (if file \<in> valid then remove_orphans d b valid files (deletedCount, w)
      else
        (let (error, w1) = storage_remove d b file w
         in remove_orphans d b valid files
              (if error then deletedCount else deletedCount + 1, w1)))"

definition cleanupOrphanedFiles :: "deps \<Rightarrow> world \<Rightarrow> nat \<times> world" where
  "cleanupOrphanedFiles d w =
     (case storage_list d IMAGES_BUCKET w of
        (None, w1) \<Rightarrow> (0, console_error ''Error during file cleanup:'' w1)
      | (Some imageFiles, w1) \<Rightarrow>
     (case storage_list d THUMBNAILS_BUCKET w1 of
        (None, w2) \<Rightarrow> (0, console_error ''Error during file cleanup:'' w2)
      | (Some thumbnailFiles, w2) \<Rightarrow>
     (case select_storage_path d Threads w2 of
        None \<Rightarrow> (0, console_error ''Error during file cleanup:'' w2)
      | Some threadPaths \<Rightarrow>
     (case select_storage_path d Posts w2 of
        None \<Rightarrow> (0, console_error ''Error during file cleanup:'' w2)
      | Some postPaths \<Rightarrow>
          remove_orphans d THUMBNAILS_BUCKET (validPaths threadPaths postPaths) thumbnailFiles
            (remove_orphans d IMAGES_BUCKET (validPaths threadPaths postPaths) imageFiles
               (0, w2))))))"

text \<open>The storage keys some thread or post refers to.\<close>

definition referenced :: "world \<Rightarrow> string set" where
  "referenced w = {p. \<exists>r \<in> set (threads w) \<union> set (posts w). storage_path r = Some p}"

subsection \<open>Request validation (\<^verbatim>\<open>utils/validations.js\<close>)\<close>

text \<open>
  A field of \<^verbatim>\<open>req.body\<close> before validation. A multipart form gives strings only; a
  JSON body can give the other values.
\<close>

datatype jsval = JUndefined | JNull | JString string | JBool bool | JNumber int

record thread_body =
  body_subject :: jsval
  body_comment :: jsval
  body_name :: jsval
  body_password :: jsval
  body_is_nsfw :: jsval
  body_other_keys :: "string list"

text \<open>The value Joi hands back, which \<^verbatim>\<open>validateThread\<close> stores in \<^verbatim>\<open>req.body\<close>.\<close>

record thread_value =
  value_subject :: "string option"
  value_comment :: string
  value_name :: string
  value_password :: "string option"
  value_is_nsfw :: bool

text \<open>
  The rules of the schema, with Joi's documented defaults: a key the schema does not list
  is an error; \<^verbatim>\<open>Joi.string()\<close> accepts strings only and rejects the empty string
  unless it is allowed; a key that is not \<^verbatim>\<open>required()\<close> may be missing;
  \<^verbatim>\<open>Joi.boolean()\<close> also accepts the strings \<^verbatim>\<open>true\<close> and \<^verbatim>\<open>false\<close> in any
  case. \<open>None\<close> is a validation error. Lengths are counted in characters of \<open>string\<close>.
\<close>

definition joi_subject :: "jsval \<Rightarrow> string option option" where
  \<comment> \<open>\<^verbatim>\<open>Joi.string().max(100).allow('', null)\<close>\<close>
  "joi_subject v =
     (case v of
        JUndefined \<Rightarrow> Some None
      | JNull \<Rightarrow> Some None
      | JString s \<Rightarrow> if length s \<le> 100 then Some (Some s) else None
      | JBool b \<Rightarrow> None
      | JNumber n \<Rightarrow> None)"

definition joi_comment :: "jsval \<Rightarrow> string option" where
  \<comment> \<open>\<^verbatim>\<open>Joi.string().required().min(1).max(10000)\<close>\<close>
  "joi_comment v =
     (case v of
        JUndefined \<Rightarrow> None
      | JNull \<Rightarrow> None
      | JString s \<Rightarrow> if s = [] then None else if length s \<le> 10000 then Some s else None
      | JBool b \<Rightarrow> None
      | JNumber n \<Rightarrow> None)"

definition joi_name :: "jsval \<Rightarrow> string option" where
  \<comment> \<open>\<^verbatim>\<open>Joi.string().max(50).default('Anonymous')\<close>\<close>
  "joi_name v =
     (case v of
        JUndefined \<Rightarrow> Some ''Anonymous''
      | JNull \<Rightarrow> None
      | JString s \<Rightarrow> if s = [] then None else if length s \<le> 50 then Some s else None
      | JBool b \<Rightarrow> None
      | JNumber n \<Rightarrow> None)"

definition joi_password :: "jsval \<Rightarrow> string option option" where
  \<comment> \<open>\<^verbatim>\<open>Joi.string().allow('', null)\<close>\<close>
  "joi_password v =
     (case v of
        JUndefined \<Rightarrow> Some None
      | JNull \<Rightarrow> Some None
      | JString s \<Rightarrow> Some (Some s)
      | JBool b \<Rightarrow> None
      | JNumber n \<Rightarrow> None)"

definition lower :: "char \<Rightarrow> char" where
  "lower c =
     (if 65 \<le> (of_char c :: nat) \<and> (of_char c :: nat) \<le> 90
      then char_of ((of_char c :: nat) + 32) else c)"

definition joi_is_nsfw :: "jsval \<Rightarrow> bool option" where
  \<comment> \<open>\<^verbatim>\<open>Joi.boolean().default(false)\<close>\<close>
  "joi_is_nsfw v =
     (case v of
        JUndefined \<Rightarrow> Some False
      | JNull \<Rightarrow> None
      | JString s \<Rightarrow>
          if map lower s = ''true'' then Some True
          else if map lower s = ''false'' then Some False
          else None
      | JBool b \<Rightarrow> Some b
      | JNumber n \<Rightarrow> None)"

definition thread_schema :: "thread_body \<Rightarrow> thread_value option" where
  "thread_schema body =
     (if body_other_keys body \<noteq> [] then None
      else
        (case joi_subject (body_subject body) of None \<Rightarrow> None | Some subject' \<Rightarrow>
        (case joi_comment (body_comment body) of None \<Rightarrow> None | Some comment' \<Rightarrow>
        (case joi_name (body_name body) of None \<Rightarrow> None | Some name' \<Rightarrow>
        (case joi_password (body_password body) of None \<Rightarrow> None | Some password' \<Rightarrow>
        (case joi_is_nsfw (body_is_nsfw body) of None \<Rightarrow> None | Some is_nsfw' \<Rightarrow>
           Some \<lparr>value_subject = subject', value_comment = comment', value_name = name',
                 value_password = password', value_is_nsfw = is_nsfw'\<rparr>))))))"

text \<open>\<^verbatim>\<open>s.trim()\<close>, for the ASCII white space.\<close>

definition is_space :: "char \<Rightarrow> bool" where
  "is_space c = (c \<in> set [CHR '' '', CHR 0x09, CHR 0x0A, CHR 0x0B, CHR 0x0C, CHR 0x0D])"

definition trim :: "string \<Rightarrow> string" where
  "trim s = rev (dropWhile is_space (rev (dropWhile is_space s)))"

text \<open>
  \<^verbatim>\<open>!req.body.comment || req.body.comment.trim() === ''\<close>, on the body before
  validation. It is evaluated only after the schema has accepted the body, so the comment
  is a string then; the other cases are never reached.
\<close>

definition comment_blank :: "jsval \<Rightarrow> bool" where
  "comment_blank v =
     (case v of
        JUndefined \<Rightarrow> True
      | JNull \<Rightarrow> True
      | JString s \<Rightarrow> if s = [] then True else trim s = []
      | JBool b \<Rightarrow> False
      | JNumber n \<Rightarrow> False)"

text \<open>
  The outcome of a middleware or handler: it answers the request with a status, a message
  and possibly a row, or it calls \<^verbatim>\<open>next()\<close>.
\<close>

datatype response = Response nat string "row option"

datatype 'a outcome = Respond response | Next 'a

definition validateThread :: "thread_body \<Rightarrow> multer_file option \<Rightarrow> thread_value outcome" where
  "validateThread body file =
     (case thread_schema body of
        None \<Rightarrow> Respond (Response 400 ''Validation error'' None)
      | Some v \<Rightarrow>
          if file = None then
            (if comment_blank (body_comment body)
             then Respond (Response 400 ''Either an image or comment is required'' None)
             else Next v)
          else Next v)"

subsection \<open>The endpoints (\<^verbatim>\<open>controllers/thread.js\<close>, storage-backed)\<close>

text \<open>
  The relational store as the handlers consume it. \<^verbatim>\<open>.eq('id', i).single()\<close> answers
  the error \<^verbatim>\<open>PGRST116\<close> unless exactly one row matches.
\<close>

datatype single = PGRST116 | OtherError | Found row

definition select_single :: "deps \<Rightarrow> table \<Rightarrow> string \<Rightarrow> world \<Rightarrow> single" where
  "select_single d t i w =
     (if select_fails d t then OtherError
      else (case filter (\<lambda>r. row_id r = i) (rows t w) of
              [] \<Rightarrow> PGRST116
            | [r] \<Rightarrow> Found r
            | r # r' # rs \<Rightarrow> PGRST116))"

definition set_rows :: "table \<Rightarrow> row list \<Rightarrow> world \<Rightarrow> world" where
  "set_rows t rs w = (case t of Threads \<Rightarrow> w\<lparr>threads := rs\<rparr> | Posts \<Rightarrow> w\<lparr>posts := rs\<rparr>)"

definition db_insert :: "deps \<Rightarrow> table \<Rightarrow> row \<Rightarrow> world \<Rightarrow> bool \<times> world" where
  "db_insert d t r w =
     (if insert_fails d t then (True, w) else (False, set_rows t (rows t w @ [r]) w))"

text \<open>
  \<^verbatim>\<open>.delete().eq('id', i)\<close> on \<^verbatim>\<open>threads\<close>: where the schema cascades, the posts
  of the thread go with it.
\<close>

definition delete_thread_row :: "deps \<Rightarrow> string \<Rightarrow> world \<Rightarrow> bool \<times> world" where
  "delete_thread_row d i w =
     (if delete_fails d Threads then (True, w)
      else (False,
            w\<lparr>threads := filter (\<lambda>r. row_id r \<noteq> i) (threads w),
              posts := (if on_delete_cascade d
                        then filter (\<lambda>r. thread_id r \<noteq> Some i) (posts w)
                        else posts w)\<rparr>))"

definition delete_post_row :: "deps \<Rightarrow> string \<Rightarrow> world \<Rightarrow> bool \<times> world" where
  "delete_post_row d i w =
     (if delete_fails d Posts then (True, w)
      else (False, w\<lparr>posts := filter (\<lambda>r. row_id r \<noteq> i) (posts w)\<rparr>))"

text \<open>\<^verbatim>\<open>.delete().eq('thread_id', i)\<close> on \<^verbatim>\<open>posts\<close>; its answer is not read.\<close>

definition delete_posts_of :: "deps \<Rightarrow> string \<Rightarrow> world \<Rightarrow> world" where
  "delete_posts_of d i w =
     (if delete_fails d Posts then w
      else w\<lparr>posts := filter (\<lambda>r. thread_id r \<noteq> Some i) (posts w)\<rparr>)"

text \<open>
  \<^verbatim>\<open>createThread\<close>. \<open>uuid\<close>, \<open>now\<close> and \<open>ipAddress\<close> stand for \<^verbatim>\<open>uuidv4()\<close>,
  \<^verbatim>\<open>new Date()\<close> and the request's address; \<open>v\<close> is the validated body and \<open>fd\<close> is
  \<^verbatim>\<open>req.fileData\<close>.
\<close>

definition threadData_of ::
  "deps \<Rightarrow> string \<Rightarrow> nat \<Rightarrow> string \<Rightarrow> thread_value \<Rightarrow> file_data option \<Rightarrow> row" where
  "threadData_of d uuid now ipAddress v fd =
     \<lparr>row_id = uuid,
      thread_id = None,
      subject = (if truthy (value_subject v) then value_subject v else None),
      comment = value_comment v,
      name = (if value_name v = [] then ''Anonymous'' else value_name v),
      tripcode = (if truthy (value_password v) then generateTripcode d (value_password v) else None),
      is_nsfw = value_is_nsfw v,
      reply_to = None,
      ip_address = ipAddress,
      created_at = now,
      bumped_at = Some now,
      file_name = (case fd of None \<Rightarrow> None | Some x \<Rightarrow> fileName x),
      file_path = (case fd of None \<Rightarrow> None | Some x \<Rightarrow> Some (filePath x)),
      file_size = (case fd of None \<Rightarrow> None | Some x \<Rightarrow> Some (fileSize x)),
      file_type = (case fd of None \<Rightarrow> None | Some x \<Rightarrow> Some (fileType x)),
      thumbnail_path = (case fd of None \<Rightarrow> None | Some x \<Rightarrow> thumbnailPath x),
      storage_path = (case fd of None \<Rightarrow> None | Some x \<Rightarrow> Some (storagePath x)),
      images_count = (case fd of None \<Rightarrow> None | Some x \<Rightarrow> Some 1)\<rparr>"

definition createThread ::
  "deps \<Rightarrow> string \<Rightarrow> nat \<Rightarrow> string \<Rightarrow> thread_value \<Rightarrow> file_data option \<Rightarrow> world
     \<Rightarrow> response \<times> world" where
  "createThread d uuid now ipAddress v fd w =
     (let threadData = threadData_of d uuid now ipAddress v fd;
          (error, w1) = db_insert d Threads threadData w
      in if error then
           (let w2 = console_error ''Error creating thread:'' w1;
                w3 = (case fd of
                        None \<Rightarrow> w2
                      | Some x \<Rightarrow>
                          if storagePath x = [] then w2
                          else snd (deleteFile d (Some (storagePath x)) (thumbnailPath x) w2))
            in (Response 500 ''Failed to create thread'' None, w3))
         else (Response 201 ''Thread created successfully'' (Some threadData), w1))"

text \<open>
  One turn of the loop \<^verbatim>\<open>for (const post of posts)\<close> of \<^verbatim>\<open>deleteThread\<close>, which is
  also the cleanup of the thread's and of a post's own file.
\<close>

definition delete_files_of :: "deps \<Rightarrow> row \<Rightarrow> world \<Rightarrow> world" where
  "delete_files_of d r w =
     (if truthy (storage_path r) then snd (deleteFile d (storage_path r) (thumbnail_path r) w)
      else w)"

definition deleteThread :: "deps \<Rightarrow> string \<Rightarrow> string option \<Rightarrow> world \<Rightarrow> response \<times> world" where
  "deleteThread d threadId password w =
     (if \<not> truthy password then (Response 400 ''Password is required'' None, w)
      else
        (case select_single d Threads threadId w of
           PGRST116 \<Rightarrow> (Response 404 ''Thread not found'' None, w)
         | OtherError \<Rightarrow>
             (Response 500 ''Failed to delete thread'' None, console_error ''Error deleting thread:'' w)
         | Found thread \<Rightarrow>
             if \<not> truthy (tripcode thread) then (Response 403 ''Invalid password'' None, w)
             else if \<not> verifyTripcode d password (tripcode thread)
             then (Response 403 ''Invalid password'' None, w)
             else
               (let (error, w1) = delete_thread_row d threadId w
                in if error then
                     (Response 500 ''Failed to delete thread'' None,
                      console_error ''Error deleting thread:'' w1)
                   else
                     (let w2 = delete_files_of d thread w1;
                          w3 = (if select_fails d Posts then w2
                                else fold (delete_files_of d)
                                       (filter (\<lambda>r. thread_id r = Some threadId) (posts w2)) w2);
                          w4 = delete_posts_of d threadId w3
                      in (Response 200 ''Thread deleted successfully'' None, w4)))))"

text \<open>
  \<^verbatim>\<open>deletePost\<close>. The procedure \<^verbatim>\<open>update_thread_counts\<close> lives in the database and
  is not part of the sources; its call is the last step and its effect on the counters
  is not modelled.
\<close>

definition deletePost :: "deps \<Rightarrow> string \<Rightarrow> string option \<Rightarrow> world \<Rightarrow> response \<times> world" where
  "deletePost d postId password w =
     (if \<not> truthy password then (Response 400 ''Password is required'' None, w)
      else
        (case select_single d Posts postId w of
           PGRST116 \<Rightarrow> (Response 404 ''Post not found'' None, w)
         | OtherError \<Rightarrow>
             (Response 500 ''Failed to delete post'' None, console_error ''Error deleting post:'' w)
         | Found post \<Rightarrow>
             if \<not> truthy (tripcode post) then (Response 403 ''Invalid password'' None, w)
             else if \<not> verifyTripcode d password (tripcode post)
             then (Response 403 ''Invalid password'' None, w)
             else
               (let (error, w1) = delete_post_row d postId w
                in if error then
                     (Response 500 ''Failed to delete post'' None,
                      console_error ''Error deleting post:'' w1)
                   else (Response 200 ''Post deleted successfully'' None, delete_files_of d post w1))))"

text \<open>
  The round trip of the testable property: upload, then delete with the
  \<^verbatim>\<open>storagePath\<close> and \<^verbatim>\<open>thumbnailPath\<close> of the returned record.
\<close>

definition upload_then_delete ::
  "deps \<Rightarrow> string \<Rightarrow> multer_file \<Rightarrow> bool \<Rightarrow> world \<Rightarrow> file_data option \<times> world" where
  "upload_then_delete d uuid f isNsfw w =
     (let (res, w1) = uploadFile d uuid (Some f) isNsfw w
      in case res of
           None \<Rightarrow> (None, w1)
         | Some r \<Rightarrow> (Some r, snd (deleteFile d (Some (storagePath r)) (thumbnailPath r) w1)))"

subsection \<open>A concrete environment for the examples\<close>

text \<open>
  The general theorems hold for every \<open>deps\<close>. The closed examples need one
  environment to compute in: plain file names, whose extension starts at the last dot,
  URLs of the form \<^verbatim>\<open>scheme://host/path\<close>, a gateway and a database that never
  fail, a listing that names every stored key, and a fixed function in the place of the
  digest and of the resizer.
\<close>

definition bucket_name :: "bucket \<Rightarrow> string" where
  "bucket_name b = (case b of IMAGES_BUCKET \<Rightarrow> ''board-images'' | THUMBNAILS_BUCKET \<Rightarrow> ''board-thumbnails'')"

definition example_extname :: "string \<Rightarrow> string" where
  "example_extname s =
     (let suffix = takeWhile (\<lambda>c. c \<noteq> CHR ''.'') (rev s)
      in if length suffix = length s then [] else CHR ''.'' # rev suffix)"

fun after_scheme :: "string \<Rightarrow> string option" where
  "after_scheme (a # b # c # cs) =
     (if [a, b, c] = ''://'' then Some cs else after_scheme (b # c # cs))"
| "after_scheme cs = None"

definition example_pathname :: "string \<Rightarrow> string option" where
  "example_pathname s =
     (case after_scheme s of
        None \<Rightarrow> None
      | Some r \<Rightarrow> Some (case dropWhile (\<lambda>c. c \<noteq> CHR ''/'') r of [] \<Rightarrow> ''/'' | x # xs \<Rightarrow> x # xs))"

definition example_deps :: deps where
  "example_deps =
     \<lparr>TRIPCODE_SALT = None,
      sha256_base64 = (\<lambda>s. ''n4+/bQ='' @ s),
      extname = example_extname,
      readFileSync = (\<lambda>p. None),
      sharp_resize = (\<lambda>width b. Some (width # b)),
      getPublicUrl = (\<lambda>b k. ''https://db.example/storage/v1/object/public/'' @ bucket_name b @ ''/'' @ k),
      URL_pathname = example_pathname,
      upload_fails = (\<lambda>b k. False),
      remove_fails = (\<lambda>b k. False),
      list_objects = (\<lambda>b ks. Some ks),
      select_fails = (\<lambda>t. False),
      insert_fails = (\<lambda>t. False),
      delete_fails = (\<lambda>t. False),
      on_delete_cascade = False\<rparr>"

definition empty_world :: world where
  "empty_world = \<lparr>images = [], thumbnails = [], threads = [], posts = [], calls = [], console = []\<rparr>"

definition example_jpeg :: multer_file where
  "example_jpeg =
     \<lparr>originalname = Some ''test-image.jpg'', mimetype = ''image/jpeg'', size_bytes = 3,
      buffer = Some [255, 216, 255], path = Some ''uploads/1-2.jpg''\<rparr>"

definition example_text :: multer_file where
  "example_text =
     \<lparr>originalname = Some ''notes.txt'', mimetype = ''text/plain'', size_bytes = 2,
      buffer = Some [104, 105], path = None\<rparr>"

definition example_row :: row where
  "example_row =
     \<lparr>row_id = ''t1'', thread_id = None, subject = None, comment = ''hello'', name = ''Anonymous'',
      tripcode = None, is_nsfw = False, reply_to = None, ip_address = ''10.0.0.1'',
      created_at = 0, bumped_at = Some 0, file_name = None, file_path = None, file_size = None,
      file_type = None, thumbnail_path = None, storage_path = None, images_count = None\<rparr>"

text \<open>The reconciler's scenario: keys A, B and C are stored, only A is referenced.\<close>

definition abc_world :: world where
  "abc_world =
     empty_world\<lparr>images := [(''A'', [1]), (''B'', [2]), (''C'', [3])],
                  thumbnails := [(''A'', [4]), (''B'', [5])],
                  threads := [example_row\<lparr>storage_path := Some ''A''\<rparr>]\<rparr>"

text \<open>
  A thread with an NSFW image, as the upload followed by \<open>createThread\<close> leaves it, and
  a thread and a reply that were posted without a password.
\<close>

definition example_value :: thread_value where
  "example_value =
     \<lparr>value_subject = Some ''Test Thread'', value_comment = ''This is a test thread with an image.'',
      value_name = ''Tester'', value_password = Some ''test123'', value_is_nsfw = True\<rparr>"

definition nsfw_thread_world :: world where
  "nsfw_thread_world =
     (let (fd, w1) = uploadFile example_deps ''u1'' (Some example_jpeg) True empty_world
      in snd (createThread example_deps ''t1'' 0 ''10.0.0.1'' example_value fd w1))"


definition example_body :: thread_body where
  "example_body =
     \<lparr>body_subject = JUndefined, body_comment = JUndefined, body_name = JString ''Tester'',
      body_password = JString ''test123'', body_is_nsfw = JString ''true'', body_other_keys = []\<rparr>"

text \<open>A thread with a tripcode and a file, and a reply to it with a file of its own.\<close>

definition cascade_world :: world where
  "cascade_world =
     empty_world\<lparr>images := [(''A'', [1]), (''B'', [2])],
                  threads := [example_row\<lparr>tripcode := Some ''n4.,bQ-tes'', storage_path := Some ''A''\<rparr>],
                  posts := [example_row\<lparr>row_id := ''p1'', thread_id := Some ''t1'',
                                         storage_path := Some ''B''\<rparr>]\<rparr>"

section \<open>Properties\<close>

subsection \<open>Tripcodes\<close>

text \<open>
  C5. For every non-empty password \<open>p\<close>, verifying \<open>p\<close> against the tripcode generated
  from \<open>p\<close> succeeds, and that tripcode is a token; an absent password and the empty
  password generate no token.
\<close>

theorem C5_verify_generate:
  "(p \<noteq> [] \<longrightarrow>
      verifyTripcode d (Some p) (generateTripcode d (Some p))
      \<and> generateTripcode d (Some p) \<noteq> None)
   \<and> generateTripcode d None = None
   \<and> generateTripcode d (Some []) = None"
  by (simp add: verifyTripcode_def generateTripcode_def)

theorem C5_verify_generate_witness:
  "verifyTripcode example_deps (Some ''test123'') (generateTripcode example_deps (Some ''test123''))
   \<and> generateTripcode example_deps (Some ''test123'') = Some ''n4.,bQ-tes''
   \<and> generateTripcode example_deps None = None
   \<and> generateTripcode example_deps (Some []) = None"
  using C5_verify_generate [of "''test123''" example_deps]
  by (simp add: generateTripcode_def example_deps_def replace_all_def)

subsection \<open>The gateway\<close>

lemma objects_simps [simp]:
  "objects IMAGES_BUCKET w = images w"
  "objects THUMBNAILS_BUCKET w = thumbnails w"
  by (simp_all add: objects_def)

lemma set_objects_simps [simp]:
  "set_objects IMAGES_BUCKET xs w = w\<lparr>images := xs\<rparr>"
  "set_objects THUMBNAILS_BUCKET xs w = w\<lparr>thumbnails := xs\<rparr>"
  by (simp_all add: set_objects_def)

lemma console_error_simps [simp]:
  "images (console_error m w) = images w"
  "thumbnails (console_error m w) = thumbnails w"
  "threads (console_error m w) = threads w"
  "posts (console_error m w) = posts w"
  "calls (console_error m w) = calls w"
  "console (console_error m w) = console w @ [m]"
  by (simp_all add: console_error_def)

lemma keys_console_error [simp]: "keys b (console_error m w) = keys b w"
  by (cases b) (simp_all add: keys_def)

lemma key_in_image: "(k, v) \<in> set xs \<Longrightarrow> k \<in> fst ` set xs"
  by force

lemma storage_upload_cases:
  "storage_upload d b k v w =
     (if upload_fails d b k \<or> k \<in> set (keys b w)
      then (True, w\<lparr>calls := calls w @ [Upload b k]\<rparr>)
      else (False, set_objects b (objects b w @ [(k, v)]) (w\<lparr>calls := calls w @ [Upload b k]\<rparr>)))"
  by (simp add: storage_upload_def Let_def)

lemma storage_remove_cases:
  "storage_remove d b k w =
     (if remove_fails d b k
      then (True, w\<lparr>calls := calls w @ [Remove b k]\<rparr>)
      else (False, set_objects b (filter (\<lambda>kv. fst kv \<noteq> k) (objects b w))
                     (w\<lparr>calls := calls w @ [Remove b k]\<rparr>)))"
  by (simp add: storage_remove_def Let_def)

lemma keys_remove_logged:
  "keys b' (remove_logged d b k m w) =
     (if b' = b \<and> \<not> remove_fails d b k then filter (\<lambda>x. x \<noteq> k) (keys b' w) else keys b' w)"
  by (cases b; cases b')
     (simp_all add: remove_logged_def storage_remove_cases keys_def filter_map comp_def)

lemma calls_remove_logged [simp]:
  "calls (remove_logged d b k m w) = calls w @ [Remove b k]"
  by (simp add: remove_logged_def storage_remove_cases) (cases b; simp)

lemma tables_remove_logged [simp]:
  "threads (remove_logged d b k m w) = threads w"
  "posts (remove_logged d b k m w) = posts w"
  by (cases b; simp add: remove_logged_def storage_remove_cases)+

lemma last_split_slash: "CHR ''/'' \<notin> set (last (split_slash s))"
proof (induction s)
  case Nil
  show ?case by simp
next
  case (Cons c cs)
  show ?case
  proof (cases "split_slash cs")
    case Nil
    then show ?thesis by simp
  next
    case (Cons p ps)
    with Cons.IH show ?thesis by (cases ps) auto
  qed
qed

lemma split_slash_not_Nil [simp]: "split_slash s \<noteq> []"
  by (induction s) (auto split: list.splits)

lemmas example_simps = example_deps_def example_jpeg_def empty_world_def fileBuffer_of_def
  fileName_of_def prefixed_def startsWith_def example_extname_def bucket_name_def
  example_pathname_def

lemmas run_simps = uploadFile_def thumbnail_stage_def storage_upload_cases storage_remove_cases
  deleteFile_def deleteFile_try_def remove_logged_def thumbnailStoragePath_def keys_def Let_def
  upload_then_delete_def

subsection \<open>Upload\<close>

text \<open>
  C2. Let the file's bytes be readable. If the upload of the original is answered with an
  error (the gateway fails, or the key is taken), \<open>uploadFile\<close> returns no record, has
  reported the error, has changed neither bucket and has made no thumbnail call. If the
  original is stored and the file is an image whose thumbnail cannot be derived or cannot
  be uploaded, \<open>uploadFile\<close> still returns the record, with the thumbnail field absent,
  and the original stays in the image bucket.
\<close>

theorem C2_original_fatal_thumbnail_degrades:
  assumes buf: "fileBuffer_of d f = Some buf"
  shows "((upload_fails d IMAGES_BUCKET (prefixed isNsfw (fileName_of d uuid f))
           \<or> prefixed isNsfw (fileName_of d uuid f) \<in> set (keys IMAGES_BUCKET w)) \<longrightarrow>
            fst (uploadFile d uuid (Some f) isNsfw w) = None
          \<and> images (snd (uploadFile d uuid (Some f) isNsfw w)) = images w
          \<and> thumbnails (snd (uploadFile d uuid (Some f) isNsfw w)) = thumbnails w
          \<and> calls (snd (uploadFile d uuid (Some f) isNsfw w))
              = calls w @ [Upload IMAGES_BUCKET (prefixed isNsfw (fileName_of d uuid f))]
          \<and> ''Error uploading file:'' \<in> set (console (snd (uploadFile d uuid (Some f) isNsfw w))))
      \<and> (\<not> upload_fails d IMAGES_BUCKET (prefixed isNsfw (fileName_of d uuid f))
          \<and> prefixed isNsfw (fileName_of d uuid f) \<notin> set (keys IMAGES_BUCKET w)
          \<and> startsWith (mimetype f) ''image/''
          \<and> (sharp_resize d 200 buf = None
              \<or> upload_fails d THUMBNAILS_BUCKET (prefixed isNsfw (fileName_of d uuid f))
              \<or> prefixed isNsfw (fileName_of d uuid f) \<in> set (keys THUMBNAILS_BUCKET w)) \<longrightarrow>
            (\<exists>r. fst (uploadFile d uuid (Some f) isNsfw w) = Some r
                 \<and> thumbnailPath r = None
                 \<and> storagePath r = prefixed isNsfw (fileName_of d uuid f)
                 \<and> filePath r = getPublicUrl d IMAGES_BUCKET (storagePath r))
          \<and> images (snd (uploadFile d uuid (Some f) isNsfw w))
              = images w @ [(prefixed isNsfw (fileName_of d uuid f), buf)]
          \<and> thumbnails (snd (uploadFile d uuid (Some f) isNsfw w)) = thumbnails w)"
  using buf
  by (auto simp: uploadFile_def thumbnail_stage_def storage_upload_cases Let_def keys_def
           split: option.splits)

theorem C2_original_fatal_thumbnail_degrades_witness:
  "uploadFile (example_deps\<lparr>upload_fails := (\<lambda>b k. b = IMAGES_BUCKET)\<rparr>) ''u1''
      (Some example_jpeg) False empty_world
     = (None, empty_world\<lparr>calls := [Upload IMAGES_BUCKET ''u1.jpg''],
                          console := [''Error uploading file:'', ''Error in uploadFile:'']\<rparr>)
   \<and> uploadFile (example_deps\<lparr>upload_fails := (\<lambda>b k. b = THUMBNAILS_BUCKET)\<rparr>) ''u1''
      (Some example_jpeg) False empty_world
     = (Some \<lparr>fileName = Some ''test-image.jpg'', fileSize = 3, fileType = ''image/jpeg'',
              filePath = ''https://db.example/storage/v1/object/public/board-images/u1.jpg'',
              thumbnailPath = None, storagePath = ''u1.jpg''\<rparr>,
        empty_world\<lparr>images := [(''u1.jpg'', [255, 216, 255])],
                     calls := [Upload IMAGES_BUCKET ''u1.jpg'', Upload THUMBNAILS_BUCKET ''u1.jpg''],
                     console := [''Error creating thumbnail:'']\<rparr>)"
  using C2_original_fatal_thumbnail_degrades
          [of "example_deps\<lparr>upload_fails := (\<lambda>b k. b = IMAGES_BUCKET)\<rparr>" example_jpeg
              "[255, 216, 255]" False "''u1''" empty_world]
        C2_original_fatal_thumbnail_degrades
          [of "example_deps\<lparr>upload_fails := (\<lambda>b k. b = THUMBNAILS_BUCKET)\<rparr>" example_jpeg
              "[255, 216, 255]" False "''u1''" empty_world]
  by (simp add: run_simps example_simps console_error_def)

text \<open>
  C7, as the code has it. For an upload that returns a record, the thumbnail field is
  present exactly when the MIME type starts with \<^verbatim>\<open>image/\<close>, the resize to width 200
  succeeds and the thumbnail upload under the record's key succeeds; the stored thumbnail
  is then the width-200 resize of the original bytes. A MIME type outside the image family
  never yields a thumbnail, and no thumbnail call is made for it.
\<close>

theorem C7_thumbnail_exactly_when:
  assumes ok: "uploadFile d uuid (Some f) isNsfw w = (Some r, w')"
  shows "(thumbnailPath r \<noteq> None) =
           (startsWith (mimetype f) ''image/''
            \<and> (\<exists>buf. fileBuffer_of d f = Some buf \<and> sharp_resize d 200 buf \<noteq> None)
            \<and> \<not> upload_fails d THUMBNAILS_BUCKET (storagePath r)
            \<and> storagePath r \<notin> set (keys THUMBNAILS_BUCKET w))
       \<and> (thumbnailPath r \<noteq> None \<longrightarrow>
            thumbnailPath r = Some (getPublicUrl d THUMBNAILS_BUCKET (storagePath r))
            \<and> (\<exists>buf tb. fileBuffer_of d f = Some buf \<and> sharp_resize d 200 buf = Some tb
                  \<and> thumbnails w' = thumbnails w @ [(storagePath r, tb)]))
       \<and> (\<not> startsWith (mimetype f) ''image/'' \<longrightarrow>
            thumbnailPath r = None \<and> thumbnails w' = thumbnails w
            \<and> calls w' = calls w @ [Upload IMAGES_BUCKET (storagePath r)])"
  using ok
  by (auto simp: uploadFile_def thumbnail_stage_def storage_upload_cases Let_def keys_def
           dest: key_in_image split: option.splits if_splits)

text \<open>
  The claim as stated fails: a file declared \<^verbatim>\<open>image/jpeg\<close> whose bytes the resizer
  rejects is uploaded and its record has no thumbnail.
\<close>

theorem C7_jpeg_without_thumbnail:
  "mimetype example_jpeg = ''image/jpeg''
   \<and> map_option thumbnailPath
        (fst (uploadFile (example_deps\<lparr>sharp_resize := (\<lambda>width b. None)\<rparr>) ''u1''
                (Some example_jpeg) False empty_world)) = Some None"
  by (simp add: run_simps example_simps)

theorem C7_thumbnail_exactly_when_witness:
  "uploadFile example_deps ''u1'' (Some example_jpeg) False empty_world
     = (Some \<lparr>fileName = Some ''test-image.jpg'', fileSize = 3, fileType = ''image/jpeg'',
              filePath = ''https://db.example/storage/v1/object/public/board-images/u1.jpg'',
              thumbnailPath = Some ''https://db.example/storage/v1/object/public/board-thumbnails/u1.jpg'',
              storagePath = ''u1.jpg''\<rparr>,
        empty_world\<lparr>images := [(''u1.jpg'', [255, 216, 255])],
                     thumbnails := [(''u1.jpg'', [200, 255, 216, 255])],
                     calls := [Upload IMAGES_BUCKET ''u1.jpg'', Upload THUMBNAILS_BUCKET ''u1.jpg'']\<rparr>)
   \<and> uploadFile example_deps ''u2'' (Some example_text) False empty_world
     = (Some \<lparr>fileName = Some ''notes.txt'', fileSize = 2, fileType = ''text/plain'',
              filePath = ''https://db.example/storage/v1/object/public/board-images/u2.txt'',
              thumbnailPath = None, storagePath = ''u2.txt''\<rparr>,
        empty_world\<lparr>images := [(''u2.txt'', [104, 105])],
                     calls := [Upload IMAGES_BUCKET ''u2.txt'']\<rparr>)"
proof -
  have jpeg: "uploadFile example_deps ''u1'' (Some example_jpeg) False empty_world
     = (Some \<lparr>fileName = Some ''test-image.jpg'', fileSize = 3, fileType = ''image/jpeg'',
              filePath = ''https://db.example/storage/v1/object/public/board-images/u1.jpg'',
              thumbnailPath = Some ''https://db.example/storage/v1/object/public/board-thumbnails/u1.jpg'',
              storagePath = ''u1.jpg''\<rparr>,
        empty_world\<lparr>images := [(''u1.jpg'', [255, 216, 255])],
                     thumbnails := [(''u1.jpg'', [200, 255, 216, 255])],
                     calls := [Upload IMAGES_BUCKET ''u1.jpg'', Upload THUMBNAILS_BUCKET ''u1.jpg'']\<rparr>)"
    by (simp add: run_simps example_simps)
  have plain: "uploadFile example_deps ''u2'' (Some example_text) False empty_world
     = (Some \<lparr>fileName = Some ''notes.txt'', fileSize = 2, fileType = ''text/plain'',
              filePath = ''https://db.example/storage/v1/object/public/board-images/u2.txt'',
              thumbnailPath = None, storagePath = ''u2.txt''\<rparr>,
        empty_world\<lparr>images := [(''u2.txt'', [104, 105])],
                     calls := [Upload IMAGES_BUCKET ''u2.txt'']\<rparr>)"
    by (simp add: run_simps example_simps example_text_def)
  show ?thesis
    using C7_thumbnail_exactly_when [OF jpeg] C7_thumbnail_exactly_when [OF plain] jpeg plain
    by simp
qed

text \<open>
  C8. One key serves both buckets. Every gateway call of one \<open>uploadFile\<close> run carries
  the same key, built once from the NSFW prefix, the random identifier and the extension
  of the original name; the returned \<open>storagePath\<close> is that key; and when a thumbnail
  is produced it is stored in the thumbnail bucket under exactly the string the original
  has in the image bucket.
\<close>

theorem C8_one_key_two_buckets:
  assumes run: "uploadFile d uuid (Some f) isNsfw w = (res, w')"
  shows "(calls w' = calls w
          \<or> calls w' = calls w @ [Upload IMAGES_BUCKET (prefixed isNsfw (fileName_of d uuid f))]
          \<or> calls w' = calls w @ [Upload IMAGES_BUCKET (prefixed isNsfw (fileName_of d uuid f)),
                                   Upload THUMBNAILS_BUCKET (prefixed isNsfw (fileName_of d uuid f))])
       \<and> (\<forall>r. res = Some r \<longrightarrow>
             storagePath r = prefixed isNsfw (fileName_of d uuid f)
           \<and> storagePath r \<in> set (keys IMAGES_BUCKET w')
           \<and> (thumbnailPath r \<noteq> None \<longrightarrow>
                 storagePath r \<in> set (keys THUMBNAILS_BUCKET w')
               \<and> thumbnailPath r = Some (getPublicUrl d THUMBNAILS_BUCKET (storagePath r))
               \<and> calls w' = calls w @ [Upload IMAGES_BUCKET (storagePath r),
                                        Upload THUMBNAILS_BUCKET (storagePath r)]))"
  using run
  by (auto simp: uploadFile_def thumbnail_stage_def storage_upload_cases Let_def keys_def
           dest: key_in_image split: option.splits if_splits)

theorem C8_one_key_two_buckets_witness:
  "map_option storagePath (fst (uploadFile example_deps ''u1'' (Some example_jpeg) True empty_world))
     = Some ''nsfw/u1.jpg''
   \<and> keys IMAGES_BUCKET (snd (uploadFile example_deps ''u1'' (Some example_jpeg) True empty_world))
     = [''nsfw/u1.jpg'']
   \<and> keys THUMBNAILS_BUCKET (snd (uploadFile example_deps ''u1'' (Some example_jpeg) True empty_world))
     = [''nsfw/u1.jpg'']
   \<and> calls (snd (uploadFile example_deps ''u1'' (Some example_jpeg) True empty_world))
     = [Upload IMAGES_BUCKET ''nsfw/u1.jpg'', Upload THUMBNAILS_BUCKET ''nsfw/u1.jpg'']"
  using C8_one_key_two_buckets
          [of example_deps "''u1''" example_jpeg True empty_world
              "fst (uploadFile example_deps ''u1'' (Some example_jpeg) True empty_world)"
              "snd (uploadFile example_deps ''u1'' (Some example_jpeg) True empty_world)"]
  by (simp add: run_simps example_simps)

subsection \<open>Delete\<close>

text \<open>
  C9. \<open>deleteFile\<close> always returns: an exception inside its \<^verbatim>\<open>try\<close> block becomes the
  result \<^verbatim>\<open>false\<close>, and whether the gateway's deletions fail has no part in the result.
  The deletion of the original is attempted whenever a storage path is given, whatever
  happens to the thumbnail; the deletion of the thumbnail is attempted whenever its key
  can be read off the thumbnail path, also when the deletion of the original failed; and
  a deletion the gateway answers with an error is written to the error log.
\<close>

theorem C9_deleteFile_best_effort:
  "fst (deleteFile d sp tp w) = (\<not> fst (deleteFile_try d sp tp w))
   \<and> fst (deleteFile d sp tp w)
       = (case tp of None \<Rightarrow> True | Some t \<Rightarrow> t = [] \<or> thumbnailStoragePath d t \<noteq> None)
   \<and> (\<forall>s. sp = Some s \<and> s \<noteq> [] \<longrightarrow>
         Remove IMAGES_BUCKET s \<in> set (calls (snd (deleteFile d sp tp w))))
   \<and> (\<forall>t k. tp = Some t \<and> t \<noteq> [] \<and> thumbnailStoragePath d t = Some k \<longrightarrow>
         Remove THUMBNAILS_BUCKET k \<in> set (calls (snd (deleteFile d sp tp w))))
   \<and> (\<forall>s. sp = Some s \<and> s \<noteq> [] \<and> remove_fails d IMAGES_BUCKET s \<longrightarrow>
         ''Error deleting file:'' \<in> set (console (snd (deleteFile d sp tp w))))
   \<and> (\<forall>t k. tp = Some t \<and> t \<noteq> [] \<and> thumbnailStoragePath d t = Some k
           \<and> remove_fails d THUMBNAILS_BUCKET k \<longrightarrow>
         ''Error deleting thumbnail:'' \<in> set (console (snd (deleteFile d sp tp w))))"
  by (cases sp; cases tp)
     (auto simp: deleteFile_def deleteFile_try_def remove_logged_def storage_remove_cases Let_def
           split: option.splits if_splits)

theorem C9_deleteFile_best_effort_witness:
  "deleteFile (example_deps\<lparr>remove_fails := (\<lambda>b k. True)\<rparr>) (Some ''u1.jpg'') (Some ''u1.jpg'')
      (empty_world\<lparr>images := [(''u1.jpg'', [1])], thumbnails := [(''u1.jpg'', [2])]\<rparr>)
     = (True, empty_world\<lparr>images := [(''u1.jpg'', [1])], thumbnails := [(''u1.jpg'', [2])],
                           calls := [Remove IMAGES_BUCKET ''u1.jpg'', Remove THUMBNAILS_BUCKET ''u1.jpg''],
                           console := [''Error deleting file:'', ''Error deleting thumbnail:'']\<rparr>)
   \<and> deleteFile (example_deps\<lparr>remove_fails := (\<lambda>b k. b = IMAGES_BUCKET)\<rparr>) (Some ''u1.jpg'')
      (Some ''u1.jpg'')
      (empty_world\<lparr>images := [(''u1.jpg'', [1])], thumbnails := [(''u1.jpg'', [2])]\<rparr>)
     = (True, empty_world\<lparr>images := [(''u1.jpg'', [1])], thumbnails := [],
                           calls := [Remove IMAGES_BUCKET ''u1.jpg'', Remove THUMBNAILS_BUCKET ''u1.jpg''],
                           console := [''Error deleting file:'']\<rparr>)
   \<and> deleteFile example_deps (Some ''u1.jpg'') (Some ''http'')
      (empty_world\<lparr>images := [(''u1.jpg'', [1])], thumbnails := [(''u1.jpg'', [2])]\<rparr>)
     = (False, empty_world\<lparr>images := [], thumbnails := [(''u1.jpg'', [2])],
                            calls := [Remove IMAGES_BUCKET ''u1.jpg''],
                            console := [''Error during file deletion:'']\<rparr>)"
  using C9_deleteFile_best_effort
          [of "example_deps\<lparr>remove_fails := (\<lambda>b k. True)\<rparr>" "Some ''u1.jpg''" "Some ''u1.jpg''"
              "empty_world\<lparr>images := [(''u1.jpg'', [1])], thumbnails := [(''u1.jpg'', [2])]\<rparr>"]
  by (simp add: run_simps example_simps console_error_def)

text \<open>
  The round trip does hold where the key the thumbnail path resolves to is the stored key
  (as it is for a URL whose last segment is the whole key) and the gateway removes what
  it is asked to.
\<close>

lemma upload_then_delete_clean:
  assumes up: "uploadFile d uuid (Some f) False w = (Some r, w1)"
      and url: "\<forall>u. thumbnailPath r = Some u \<longrightarrow>
                    u \<noteq> [] \<and> thumbnailStoragePath d u = Some (storagePath r)"
      and rm: "\<not> remove_fails d IMAGES_BUCKET (storagePath r)"
              "\<not> remove_fails d THUMBNAILS_BUCKET (storagePath r)"
      and new: "storagePath r \<notin> set (keys THUMBNAILS_BUCKET w)"
      and ne: "storagePath r \<noteq> []"
  shows "storagePath r
           \<notin> set (keys IMAGES_BUCKET (snd (deleteFile d (Some (storagePath r)) (thumbnailPath r) w1)))
       \<and> storagePath r
           \<notin> set (keys THUMBNAILS_BUCKET (snd (deleteFile d (Some (storagePath r)) (thumbnailPath r) w1)))"
proof -
  have absent: "thumbnailPath r = None \<Longrightarrow> storagePath r \<notin> set (keys THUMBNAILS_BUCKET w1)"
    using up new
    by (auto simp: uploadFile_def thumbnail_stage_def storage_upload_cases Let_def keys_def
             split: option.splits if_splits)
  show ?thesis
    using url rm ne absent
    by (cases "thumbnailPath r")
       (auto simp: deleteFile_def deleteFile_try_def keys_remove_logged Let_def split: option.splits)
qed

text \<open>
  C1, at the inputs where the code departs from it. After an upload with the NSFW flag
  that produced a thumbnail whose public URL starts with \<^verbatim>\<open>http\<close>, \<open>deleteFile\<close> with
  the returned \<open>storagePath\<close> and \<open>thumbnailPath\<close> leaves the thumbnail in its bucket:
  the key it derives from the URL is the last path segment, which has lost the
  \<^verbatim>\<open>nsfw/\<close> prefix, and no deletion of the stored key is attempted.
\<close>

theorem C1_nsfw_thumbnail_survives:
  assumes up: "uploadFile d uuid (Some f) True w = (Some r, w1)"
      and url: "thumbnailPath r = Some url" "startsWith url ''http''"
  shows "take 5 (storagePath r) = ''nsfw/''
       \<and> storagePath r \<in> set (keys THUMBNAILS_BUCKET w1)
       \<and> storagePath r \<in> set (keys THUMBNAILS_BUCKET
                                  (snd (deleteFile d (Some (storagePath r)) (thumbnailPath r) w1)))
       \<and> Remove THUMBNAILS_BUCKET (storagePath r)
           \<notin> set (drop (length (calls w1))
                    (calls (snd (deleteFile d (Some (storagePath r)) (thumbnailPath r) w1))))"
proof -
  have sp: "storagePath r = ''nsfw/'' @ fileName_of d uuid f"
    using up
    by (auto simp: uploadFile_def Let_def prefixed_def split: option.splits if_splits prod.splits)
  have inT: "storagePath r \<in> set (keys THUMBNAILS_BUCKET w1)"
    using up url(1)
    by (auto simp: uploadFile_def thumbnail_stage_def storage_upload_cases Let_def keys_def
             split: option.splits if_splits)
  have slash: "CHR ''/'' \<in> set (storagePath r)" by (simp add: sp)
  have ne: "url \<noteq> []" using url(2) by (auto simp: startsWith_def)
  have neq: "k \<noteq> storagePath r" if "thumbnailStoragePath d url = Some k" for k
    using that url(2) slash last_split_slash [of "the (URL_pathname d url)"]
    by (auto simp: thumbnailStoragePath_def split: option.splits)
  have spne: "storagePath r \<noteq> []" by (simp add: sp)
  have pre: "take 5 (storagePath r) = ''nsfw/''" by (simp add: sp)
  show ?thesis
    using inT neq ne spne pre
    by (auto simp: sp[symmetric] url(1) deleteFile_def deleteFile_try_def keys_remove_logged Let_def
             split: option.splits)
qed

theorem C1_nsfw_thumbnail_survives_witness:
  "upload_then_delete example_deps ''u1'' example_jpeg True empty_world =
     (Some \<lparr>fileName = Some ''test-image.jpg'', fileSize = 3, fileType = ''image/jpeg'',
            filePath = ''https://db.example/storage/v1/object/public/board-images/nsfw/u1.jpg'',
            thumbnailPath = Some ''https://db.example/storage/v1/object/public/board-thumbnails/nsfw/u1.jpg'',
            storagePath = ''nsfw/u1.jpg''\<rparr>,
      \<lparr>images = [], thumbnails = [(''nsfw/u1.jpg'', [200, 255, 216, 255])],
       threads = [], posts = [],
       calls = [Upload IMAGES_BUCKET ''nsfw/u1.jpg'', Upload THUMBNAILS_BUCKET ''nsfw/u1.jpg'',
                Remove IMAGES_BUCKET ''nsfw/u1.jpg'', Remove THUMBNAILS_BUCKET ''u1.jpg''],
       console = []\<rparr>)"
proof -
  have up: "uploadFile example_deps ''u1'' (Some example_jpeg) True empty_world =
     (Some \<lparr>fileName = Some ''test-image.jpg'', fileSize = 3, fileType = ''image/jpeg'',
            filePath = ''https://db.example/storage/v1/object/public/board-images/nsfw/u1.jpg'',
            thumbnailPath = Some ''https://db.example/storage/v1/object/public/board-thumbnails/nsfw/u1.jpg'',
            storagePath = ''nsfw/u1.jpg''\<rparr>,
      \<lparr>images = [(''nsfw/u1.jpg'', [255, 216, 255])],
       thumbnails = [(''nsfw/u1.jpg'', [200, 255, 216, 255])],
       threads = [], posts = [],
       calls = [Upload IMAGES_BUCKET ''nsfw/u1.jpg'', Upload THUMBNAILS_BUCKET ''nsfw/u1.jpg''],
       console = []\<rparr>)"
    by (simp add: run_simps example_simps)
  show ?thesis
    using C1_nsfw_thumbnail_survives [OF up]
    by (simp add: run_simps example_simps)
qed

subsection \<open>The orphan reconciler\<close>

lemma validPaths_referenced:
  "validPaths (List.map_filter storage_path (threads w)) (List.map_filter storage_path (posts w))
     = referenced w - {[]}"
  by (auto simp: validPaths_def referenced_def map_filter_def) force+

lemma referenced_calls [simp]: "referenced (w\<lparr>calls := c\<rparr>) = referenced w"
  by (simp add: referenced_def)

lemma set_objects_generic:
  "objects b (set_objects b xs w) = xs"
  "set_objects b xs (set_objects b ys w) = set_objects b xs w"
  "set_objects b xs (w\<lparr>calls := c\<rparr>) = (set_objects b xs w)\<lparr>calls := c\<rparr>"
  "calls (set_objects b xs w) = calls w"
  "objects b (w\<lparr>calls := c\<rparr>) = objects b w"
  by (cases b; simp)+

text \<open>
  The loop, in closed form: it issues one removal for each listed name outside the valid
  set, in order; an object goes exactly when such a removal succeeds; the count grows by
  the successful removals.
\<close>

lemma remove_orphans_eq:
  "remove_orphans d b valid files (n, w) =
     (n + length (filter (\<lambda>k. k \<notin> valid \<and> \<not> remove_fails d b k) files),
      (set_objects b
        (filter (\<lambda>kv. \<not> (fst kv \<in> set files \<and> fst kv \<notin> valid \<and> \<not> remove_fails d b (fst kv)))
           (objects b w)) w)
        \<lparr>calls := calls w @ map (Remove b) (filter (\<lambda>k. k \<notin> valid) files)\<rparr>)"
proof (induction files arbitrary: n w)
  case Nil
  show ?case by (cases b) simp_all
next
  case (Cons x xs)
  show ?case
    by (auto simp: Cons.IH storage_remove_cases set_objects_generic intro!: filter_cong
        arg_cong2[where f="\<lambda>a b. a\<lparr>calls := b\<rparr>"] arg_cong2[where f="set_objects b"])
qed

text \<open>
  C3. When both listings and both queries are answered, one run of the reconciler issues a
  removal for exactly the listed names that are not the storage path of a thread or
  post, each on its own and in listing order. An object whose key is referenced is
  retained, and so is one that was not listed; a listed, unreferenced one is gone unless
  the gateway refused its removal; the tables are untouched; and the returned count is
  the number of removals that succeeded. (The empty string is never a valid path for the
  code; no stored object has it as key.)
\<close>

theorem C3_reconciler_deletes_unreferenced:
  assumes listed: "list_objects d IMAGES_BUCKET (keys IMAGES_BUCKET w) = Some imageFiles"
                  "list_objects d THUMBNAILS_BUCKET (keys THUMBNAILS_BUCKET w) = Some thumbnailFiles"
      and answered: "\<not> select_fails d Threads" "\<not> select_fails d Posts"
  shows "images (snd (cleanupOrphanedFiles d w))
           = filter (\<lambda>kv. \<not> (fst kv \<in> set imageFiles \<and> fst kv \<notin> referenced w - {[]}
                            \<and> \<not> remove_fails d IMAGES_BUCKET (fst kv)))
               (images w)
       \<and> thumbnails (snd (cleanupOrphanedFiles d w))
           = filter (\<lambda>kv. \<not> (fst kv \<in> set thumbnailFiles \<and> fst kv \<notin> referenced w - {[]}
                            \<and> \<not> remove_fails d THUMBNAILS_BUCKET (fst kv)))
               (thumbnails w)
       \<and> calls (snd (cleanupOrphanedFiles d w))
           = calls w @ [ListAll IMAGES_BUCKET, ListAll THUMBNAILS_BUCKET]
             @ map (Remove IMAGES_BUCKET) (filter (\<lambda>k. k \<notin> referenced w - {[]}) imageFiles)
             @ map (Remove THUMBNAILS_BUCKET) (filter (\<lambda>k. k \<notin> referenced w - {[]}) thumbnailFiles)
       \<and> fst (cleanupOrphanedFiles d w)
           = length (filter (\<lambda>k. k \<notin> referenced w - {[]} \<and> \<not> remove_fails d IMAGES_BUCKET k)
                       imageFiles)
             + length (filter (\<lambda>k. k \<notin> referenced w - {[]} \<and> \<not> remove_fails d THUMBNAILS_BUCKET k)
                         thumbnailFiles)
       \<and> threads (snd (cleanupOrphanedFiles d w)) = threads w
       \<and> posts (snd (cleanupOrphanedFiles d w)) = posts w"
proof -
  let ?valid = "referenced w - {[]}"
  let ?w2 = "w\<lparr>calls := calls w @ [ListAll IMAGES_BUCKET, ListAll THUMBNAILS_BUCKET]\<rparr>"
  have run: "cleanupOrphanedFiles d w =
      remove_orphans d THUMBNAILS_BUCKET ?valid thumbnailFiles
        (remove_orphans d IMAGES_BUCKET ?valid imageFiles (0, ?w2))"
    using listed answered
    by (simp add: cleanupOrphanedFiles_def storage_list_def select_storage_path_def rows_def
          keys_def validPaths_referenced)
  show ?thesis
    unfolding run remove_orphans_eq
    by (auto intro!: filter_cong)
qed

theorem C3_reconciler_deletes_unreferenced_witness:
  "cleanupOrphanedFiles example_deps abc_world
     = (3, abc_world\<lparr>images := [(''A'', [1])], thumbnails := [(''A'', [4])],
                      calls := [ListAll IMAGES_BUCKET, ListAll THUMBNAILS_BUCKET,
                                Remove IMAGES_BUCKET ''B'', Remove IMAGES_BUCKET ''C'',
                                Remove THUMBNAILS_BUCKET ''B'']\<rparr>)"
proof -
  have run: "cleanupOrphanedFiles example_deps abc_world
     = (3, abc_world\<lparr>images := [(''A'', [1])], thumbnails := [(''A'', [4])],
                      calls := [ListAll IMAGES_BUCKET, ListAll THUMBNAILS_BUCKET,
                                Remove IMAGES_BUCKET ''B'', Remove IMAGES_BUCKET ''C'',
                                Remove THUMBNAILS_BUCKET ''B'']\<rparr>)"
    by (simp add: cleanupOrphanedFiles_def storage_list_def select_storage_path_def rows_def
          keys_def validPaths_def map_filter_simps storage_remove_cases
          abc_world_def empty_world_def example_row_def example_deps_def)
  have listed:
    "list_objects example_deps IMAGES_BUCKET (keys IMAGES_BUCKET abc_world) = Some [''A'', ''B'', ''C'']"
    "list_objects example_deps THUMBNAILS_BUCKET (keys THUMBNAILS_BUCKET abc_world) = Some [''A'', ''B'']"
    by (simp_all add: example_deps_def keys_def abc_world_def empty_world_def)
  have answered: "\<not> select_fails example_deps Threads" "\<not> select_fails example_deps Posts"
    by (simp_all add: example_deps_def)
  show ?thesis
    using C3_reconciler_deletes_unreferenced [OF listed answered]
    by (simp only: run)
qed

subsection \<open>Validation and thread creation\<close>

text \<open>Without a file, a blank comment is refused, by the schema or by the check after it.\<close>

lemma validateThread_blank_no_file:
  "comment_blank (body_comment body) \<Longrightarrow>
   validateThread body None = Respond (Response 400 ''Validation error'' None)
   \<or> validateThread body None = Respond (Response 400 ''Either an image or comment is required'' None)"
  by (auto simp: validateThread_def split: option.splits)

text \<open>Without a file, the thread is stored with every file column absent.\<close>

lemma createThread_no_file:
  "\<not> insert_fails d Threads \<Longrightarrow>
   createThread d uuid now ip v None w
     = (Response 201 ''Thread created successfully'' (Some (threadData_of d uuid now ip v None)),
        w\<lparr>threads := threads w @ [threadData_of d uuid now ip v None]\<rparr>)
   \<and> file_name (threadData_of d uuid now ip v None) = None
   \<and> file_path (threadData_of d uuid now ip v None) = None
   \<and> file_size (threadData_of d uuid now ip v None) = None
   \<and> file_type (threadData_of d uuid now ip v None) = None
   \<and> thumbnail_path (threadData_of d uuid now ip v None) = None
   \<and> storage_path (threadData_of d uuid now ip v None) = None
   \<and> images_count (threadData_of d uuid now ip v None) = None"
  by (simp add: createThread_def db_insert_def set_rows_def rows_def Let_def)
     (simp add: threadData_of_def)

text \<open>
  C6, at the inputs where the code departs from it. A request whose comment is missing,
  \<^verbatim>\<open>null\<close> or empty is refused by the schema with status 400, whether or not a file
  is attached: the check that would let a file stand in for the comment is never reached.
\<close>

theorem C6_comment_required_despite_file:
  "body_comment body = JUndefined \<or> body_comment body = JNull \<or> body_comment body = JString [] \<Longrightarrow>
   validateThread body file = Respond (Response 400 ''Validation error'' None)"
  by (auto simp: validateThread_def thread_schema_def joi_comment_def split: option.splits)

theorem C6_comment_required_despite_file_witness:
  "validateThread example_body (Some example_jpeg) = Respond (Response 400 ''Validation error'' None)
   \<and> validateThread (example_body\<lparr>body_comment := JString ''hi''\<rparr>) (Some example_jpeg)
       = Next \<lparr>value_subject = None, value_comment = ''hi'', value_name = ''Tester'',
               value_password = Some ''test123'', value_is_nsfw = True\<rparr>"
  using C6_comment_required_despite_file [of example_body "Some example_jpeg"]
  by (simp add: example_body_def validateThread_def thread_schema_def joi_comment_def
        joi_subject_def joi_name_def joi_password_def joi_is_nsfw_def lower_def)

subsection \<open>Deleting threads and posts\<close>

text \<open>A password that does not verify: status 403, and nothing has changed.\<close>

lemma deleteThread_wrong_password:
  "truthy pw \<Longrightarrow> select_single d Threads i w = Found t \<Longrightarrow>
   \<not> verifyTripcode d pw (tripcode t) \<Longrightarrow>
   deleteThread d i pw w = (Response 403 ''Invalid password'' None, w)"
  by (simp add: deleteThread_def)

lemma deletePost_wrong_password:
  "truthy pw \<Longrightarrow> select_single d Posts j w = Found p \<Longrightarrow>
   \<not> verifyTripcode d pw (tripcode p) \<Longrightarrow>
   deletePost d j pw w = (Response 403 ''Invalid password'' None, w)"
  by (simp add: deletePost_def)

lemma select_single_Found:
  assumes "select_single d t i w = Found r"
  shows "r \<in> set (rows t w) \<and> row_id r = i"
proof -
  from assms have "filter (\<lambda>r. row_id r = i) (rows t w) = [r]"
    by (auto simp: select_single_def split: if_splits list.splits)
  then have "r \<in> set (filter (\<lambda>r. row_id r = i) (rows t w))" by simp
  then show ?thesis by simp
qed

text \<open>
  Whatever the lookup answers, a thread whose rows carry no tripcode keeps its row, its
  posts and every stored object.
\<close>

lemma deleteThread_without_tripcode_keeps_all:
  assumes "\<forall>r \<in> set (threads w). row_id r = i \<longrightarrow> \<not> truthy (tripcode r)"
  shows "threads (snd (deleteThread d i pw w)) = threads w
       \<and> posts (snd (deleteThread d i pw w)) = posts w
       \<and> images (snd (deleteThread d i pw w)) = images w
       \<and> thumbnails (snd (deleteThread d i pw w)) = thumbnails w
       \<and> calls (snd (deleteThread d i pw w)) = calls w"
proof (cases "select_single d Threads i w")
  case (Found t)
  from select_single_Found [OF Found] assms have "\<not> truthy (tripcode t)"
    by (auto simp: rows_def)
  with Found show ?thesis by (simp add: deleteThread_def)
qed (simp_all add: deleteThread_def)

lemma deletePost_without_tripcode_keeps_all:
  assumes "\<forall>r \<in> set (posts w). row_id r = j \<longrightarrow> \<not> truthy (tripcode r)"
  shows "threads (snd (deletePost d j pw w)) = threads w
       \<and> posts (snd (deletePost d j pw w)) = posts w
       \<and> images (snd (deletePost d j pw w)) = images w
       \<and> thumbnails (snd (deletePost d j pw w)) = thumbnails w
       \<and> calls (snd (deletePost d j pw w)) = calls w"
proof (cases "select_single d Posts j w")
  case (Found p)
  from select_single_Found [OF Found] assms have "\<not> truthy (tripcode p)"
    by (auto simp: rows_def)
  with Found show ?thesis by (simp add: deletePost_def)
qed (simp_all add: deletePost_def)

text \<open>The file removals of the handlers leave both tables as they are.\<close>

lemma deleteFile_tables [simp]:
  "threads (snd (deleteFile d sp tp w)) = threads w"
  "posts (snd (deleteFile d sp tp w)) = posts w"
  by (auto simp: deleteFile_def deleteFile_try_def Let_def split: option.splits)

lemma delete_files_of_tables [simp]:
  "threads (delete_files_of d r w) = threads w"
  "posts (delete_files_of d r w) = posts w"
  by (simp_all add: delete_files_of_def)

lemma fold_delete_files_of_tables [simp]:
  "threads (fold (delete_files_of d) rs w) = threads w"
  "posts (fold (delete_files_of d) rs w) = posts w"
  by (induction rs arbitrary: w) simp_all




text \<open>
  C4, at an input where the code departs from it. The thread was created with an NSFW
  image and the password \<^verbatim>\<open>test123\<close>. A wrong password is answered 403 and nothing
  changes. The right password is answered 200: the row and the original are gone, and
  the thumbnail is still in its bucket, since the removal went to the key without the
  \<^verbatim>\<open>nsfw/\<close> prefix.
\<close>

theorem C4_nsfw_thread_thumbnail_survives:
  "deleteThread example_deps ''t1'' (Some ''wrong'') nsfw_thread_world
     = (Response 403 ''Invalid password'' None, nsfw_thread_world)
   \<and> deleteThread example_deps ''t1'' (Some ''test123'') nsfw_thread_world
     = (Response 200 ''Thread deleted successfully'' None,
        \<lparr>images = [], thumbnails = [(''nsfw/u1.jpg'', [200, 255, 216, 255])],
         threads = [], posts = [],
         calls = [Upload IMAGES_BUCKET ''nsfw/u1.jpg'', Upload THUMBNAILS_BUCKET ''nsfw/u1.jpg'',
                  Remove IMAGES_BUCKET ''nsfw/u1.jpg'', Remove THUMBNAILS_BUCKET ''u1.jpg''],
         console = []\<rparr>)"
proof -
  have w: "nsfw_thread_world =
     \<lparr>images = [(''nsfw/u1.jpg'', [255, 216, 255])],
      thumbnails = [(''nsfw/u1.jpg'', [200, 255, 216, 255])],
      threads = [example_row
        \<lparr>subject := Some ''Test Thread'', comment := ''This is a test thread with an image.'',
         name := ''Tester'', tripcode := Some ''n4.,bQ-tes'', is_nsfw := True,
         file_name := Some ''test-image.jpg'',
         file_path := Some ''https://db.example/storage/v1/object/public/board-images/nsfw/u1.jpg'',
         file_size := Some 3, file_type := Some ''image/jpeg'',
         thumbnail_path := Some ''https://db.example/storage/v1/object/public/board-thumbnails/nsfw/u1.jpg'',
         storage_path := Some ''nsfw/u1.jpg'', images_count := Some 1\<rparr>],
      posts = [],
      calls = [Upload IMAGES_BUCKET ''nsfw/u1.jpg'', Upload THUMBNAILS_BUCKET ''nsfw/u1.jpg''],
      console = []\<rparr>"
    by (simp add: nsfw_thread_world_def run_simps example_simps createThread_def db_insert_def
          set_rows_def rows_def threadData_of_def example_value_def example_row_def
          generateTripcode_def replace_all_def)
  show ?thesis
    unfolding w
    by (simp add: deleteThread_def select_single_def rows_def delete_thread_row_def
          delete_files_of_def delete_posts_of_def verifyTripcode_def generateTripcode_def
          replace_all_def run_simps example_simps example_row_def)
qed

text \<open>
  Where the schema cascades, the posts are gone before \<open>deleteThread\<close> asks for them, and
  the file of a reply stays in the bucket; without the cascade it is removed.
\<close>

lemma deleteThread_cascade_leaves_reply_file:
  "deleteThread (example_deps\<lparr>on_delete_cascade := True\<rparr>) ''t1'' (Some ''test123'') cascade_world
     = (Response 200 ''Thread deleted successfully'' None,
        empty_world\<lparr>images := [(''B'', [2])], calls := [Remove IMAGES_BUCKET ''A'']\<rparr>)
   \<and> deleteThread example_deps ''t1'' (Some ''test123'') cascade_world
     = (Response 200 ''Thread deleted successfully'' None,
        empty_world\<lparr>calls := [Remove IMAGES_BUCKET ''A'', Remove IMAGES_BUCKET ''B'']\<rparr>)"
  by (simp add: deleteThread_def select_single_def rows_def delete_thread_row_def
        delete_files_of_def delete_posts_of_def verifyTripcode_def generateTripcode_def
        replace_all_def run_simps example_simps example_row_def cascade_world_def)

end
